theory Spec2Isabelle
  imports Complex_Main "HOL-Library.AList"
begin

section \<open>Data model of \<^verbatim>\<open>src/src/index.ts\<close>\<close>

text \<open>
  The accessors of the behavioral taxonomy read four JSON documents that are imported at
  module load. The documents themselves are data, so every accessor below takes the
  loaded document as an argument. The loops document is read through the declared
  interface (\<^verbatim>\<open>as BehavioralLoopsData\<close>), so it is a record of the declared types; an
  origin is one of the five declared literals.

  A JSON number is a finite double; it is modelled by its exact rational value, and sums
  and quotients of such numbers are exact, where doubles round. The model therefore gives
  the computed mean only up to that rounding, and no property below states its exact
  value. Values that only arithmetic can produce (\<open>NaN\<close>, the infinities) live in the type
  \<open>number\<close>.

  Text that the accessors lower-case (a loop's name, its logic and its tags, and the
  queries) is a \<open>ustring\<close>: the list of its UTF-16 code units, as \<^verbatim>\<open>toLowerCase\<close> and
  \<^verbatim>\<open>includes\<close> see it. Identifiers and text that are only stored or compared with
  \<^verbatim>\<open>===\<close> are strings.
\<close>

type_synonym ustring = "nat list"

datatype number = Num rat | Infinity bool | NaN

text \<open>\<^verbatim>\<open>a === b\<close> on numbers: \<open>NaN\<close> is equal to nothing, not even to itself.\<close>

fun strictEq :: "number \<Rightarrow> number \<Rightarrow> bool" where
  "strictEq NaN _ = False"
| "strictEq _ NaN = False"
| "strictEq (Num a) (Num b) = (a = b)"
| "strictEq (Infinity s) (Infinity t) = (s = t)"
| "strictEq _ _ = False"

record BehavioralLoopLogic =
  given :: ustring
  when_l :: ustring
  then_l :: ustring
  result :: ustring

datatype LoopOrigin = GENETIC | BEHAVIORAL | NARRATIVE | DIGITAL | ENVIRONMENTAL

datatype LoopModality =
  VISUAL_STATIC | VISUAL_DYNAMIC | AUDITORY | HAPTIC | OLFACTORY | META | PROXEMIC

datatype LoopMutability = IMMUTABLE | STUBBORN | FLUID | VOLATILE

datatype LoopValence =
  ATTRACTION | REPULSION | DOMINANCE | SUBMISSION | TRUST | DECEPTION | DISRUPTION

datatype mutability_or_number = Mutability LoopMutability | MutabilityNumber rat

record LoopTaxonomy =
  origin :: LoopOrigin
  modality :: LoopModality
  mutability :: mutability_or_number
  valences :: "LoopValence list"

record LoopOperator =
  operator_name :: string
  mechanism :: string

record LoopVeracity =
  objectiveGrounding :: rat
  socialConsensus :: rat
  recursiveAmplification :: rat
  frictionIndex :: rat

record LoopIntervention =
  difficulty :: rat
  interdict :: "string option"
  minimize :: "string option"
  recognize :: "string option"
  leverage :: "string option"

record LoopMeta =
  tags :: "ustring list"
  relatedArchetypes :: "string list option"
  academicFields :: "string list option"

record BehavioralLoop =
  loop_id :: rat
  loop_name :: ustring
  logic :: BehavioralLoopLogic
  taxonomy :: LoopTaxonomy
  operator :: LoopOperator
  veracity :: LoopVeracity
  intervention :: LoopIntervention
  meta :: LoopMeta

record BehavioralCategory =
  category_id :: string
  categoryNumber :: rat
  category_name :: string
  category_description :: string
  loops :: "BehavioralLoop list"

record BehavioralLoopsMetadata =
  title :: string
  version :: string
  description :: string
  totalCategories :: rat
  totalLoops :: rat
  generatedAt :: string
  interventionsAdded :: rat
  updatedAt :: string

record BehavioralLoopsData =
  metadata :: BehavioralLoopsMetadata
  categories :: "BehavioralCategory list"

section \<open>Data accessors\<close>

text \<open>\<^verbatim>\<open>getBehavioralLoops\<close> hands the loaded document back unchanged.\<close>

definition getBehavioralLoops :: "BehavioralLoopsData \<Rightarrow> BehavioralLoopsData" where
  "getBehavioralLoops behavioralLoopsData = behavioralLoopsData"

text \<open>\<^verbatim>\<open>data.categories.flatMap((cat) => cat.loops)\<close>\<close>

definition getAllLoops :: "BehavioralLoopsData \<Rightarrow> BehavioralLoop list" where
  "getAllLoops d = (let data = getBehavioralLoops d in concat (map loops (categories data)))"

text \<open>
  \<^verbatim>\<open>data.categories.find((c) => c.id === categoryId)\<close>, then
  \<^verbatim>\<open>category?.loops ?? []\<close>: \<open>find\<close> stops at the first category whose id matches.
\<close>

definition getLoopsByCategory :: "BehavioralLoopsData \<Rightarrow> string \<Rightarrow> BehavioralLoop list" where
  "getLoopsByCategory d categoryId =
     (let data = getBehavioralLoops d in
      case find (\<lambda>c. category_id c = categoryId) (categories data) of
        None \<Rightarrow> []
      | Some category \<Rightarrow> loops category)"

text \<open>\<^verbatim>\<open>getAllLoops().filter((loop) => loop.taxonomy.origin === origin)\<close>\<close>

definition findLoopsByOrigin :: "BehavioralLoopsData \<Rightarrow> LoopOrigin \<Rightarrow> BehavioralLoop list" where
  "findLoopsByOrigin d orig = filter (\<lambda>loop. origin (taxonomy loop) = orig) (getAllLoops d)"

text \<open>
  \<^verbatim>\<open>getAllLoops().find((loop) => loop.id === id)\<close>. The argument is any number a
  caller can pass, \<open>NaN\<close> included; an absent result (\<^verbatim>\<open>undefined\<close>) is \<open>None\<close>.
\<close>

definition getLoopById :: "BehavioralLoopsData \<Rightarrow> number \<Rightarrow> BehavioralLoop option" where
  "getLoopById d i = find (\<lambda>loop. strictEq (Num (loop_id loop)) i) (getAllLoops d)"

subsection \<open>Strings: \<^verbatim>\<open>toLowerCase\<close> and \<^verbatim>\<open>includes\<close>\<close>

















section \<open>Statistics\<close>

text \<open>
  The reducer of \<^verbatim>\<open>loopsByOrigin\<close>:
  \<^verbatim>\<open>acc[origin] = (acc[origin] || 0) + 1\<close>. The accumulator object is an association
  list in insertion order: assigning to a present key overwrites in place, assigning to a
  new key appends it. A missing key reads as \<^verbatim>\<open>undefined\<close>, which \<^verbatim>\<open>||\<close> replaces
  by 0, as it does a stored 0.
\<close>

definition countOrigin :: "(LoopOrigin \<times> nat) list \<Rightarrow> BehavioralLoop \<Rightarrow> (LoopOrigin \<times> nat) list" where
  "countOrigin acc loop =
     (let orig = origin (taxonomy loop) in
      AList.update orig
        ((case map_of acc orig of None \<Rightarrow> 0 | Some n \<Rightarrow> (if n = 0 then 0 else n)) + 1) acc)"

text \<open>
  \<^verbatim>\<open>sum / allLoops.length\<close>: the divisor is a length, so it is never negative and
  never \<open>NaN\<close>. Dividing zero by zero gives \<open>NaN\<close>, dividing anything else by zero an
  infinity of the dividend's sign.
\<close>

definition divideByLength :: "rat \<Rightarrow> nat \<Rightarrow> number" where
  "divideByLength s n =
     (if n = 0 then (if s = 0 then NaN else Infinity (0 < s)) else Num (s / of_nat n))"

text \<open>
  \<^verbatim>\<open>Math.round(avgDifficulty * 10) / 10\<close>: \<^verbatim>\<open>Math.round\<close> takes the nearest integer,
  a tie going up; \<open>NaN\<close> and the infinities pass through all three operations.
\<close>

fun roundToTenth :: "number \<Rightarrow> number" where
  "roundToTenth (Num x) = Num (of_int \<lfloor>x * 10 + 1 / 2\<rfloor> / 10)"
| "roundToTenth (Infinity s) = Infinity s"
| "roundToTenth NaN = NaN"

record Statistics =
  totalLoops_stat :: rat
  totalCategories_stat :: rat
  loopsByOrigin :: "(LoopOrigin \<times> nat) list"
  averageInterventionDifficulty :: number

definition getStatistics :: "BehavioralLoopsData \<Rightarrow> Statistics" where
  "getStatistics d =
     (let data = getBehavioralLoops d;
          allLoops = getAllLoops d;
          byOrigin = foldl countOrigin [] allLoops;
          avgDifficulty =
            divideByLength
              (foldl (\<lambda>sum loop. sum + difficulty (intervention loop)) 0 allLoops)
              (length allLoops)
      in \<lparr> totalLoops_stat = totalLoops (metadata data),
           totalCategories_stat = totalCategories (metadata data),
           loopsByOrigin = byOrigin,
           averageInterventionDifficulty = roundToTenth avgDifficulty \<rparr>)"

section \<open>Biases and traits: untyped JSON dictionaries\<close>

text \<open>
  \<^verbatim>\<open>getBiases\<close> and \<^verbatim>\<open>getTraits\<close> read their documents as \<^verbatim>\<open>any\<close>, so the values are
  plain JSON. An object is the list of its own properties in enumeration order, each key
  once; the two dictionaries are such lists themselves.
\<close>

datatype json =
  JNull | JBool bool | JNumber rat | JString string | JArray "json list"
| JObject "(string \<times> json) list"

datatype error = TypeError

text \<open>
  \<^verbatim>\<open>item.id\<close>: reading a property of \<^verbatim>\<open>null\<close> throws; an object gives its own
  property or \<^verbatim>\<open>undefined\<close> (\<open>None\<close>); a string, number, boolean or array has no
  property of that name.
\<close>

fun getId :: "json \<Rightarrow> error + json option" where
  "getId JNull = Inl TypeError"
| "getId (JObject props) = Inr (map_of props ''id'')"
| "getId _ = Inr None"

text \<open>Truthiness, as \<^verbatim>\<open>filter\<close> applies it to the value its callback returns.\<close>

fun truthy :: "json option \<Rightarrow> bool" where
  "truthy None = False"
| "truthy (Some JNull) = False"
| "truthy (Some (JBool b)) = b"
| "truthy (Some (JNumber n)) = (n \<noteq> 0)"
| "truthy (Some (JString s)) = (s \<noteq> [])"
| "truthy (Some (JArray xs)) = True"
| "truthy (Some (JObject props)) = True"

text \<open>\<^verbatim>\<open>Array.prototype.filter\<close> with a callback that may throw: the first throw ends the call.\<close>

fun filterE :: "('a \<Rightarrow> error + bool) \<Rightarrow> 'a list \<Rightarrow> error + 'a list" where
  "filterE p [] = Inr []"
| "filterE p (x # xs) =
     (case p x of
        Inl e \<Rightarrow> Inl e
      | Inr keep \<Rightarrow>
          (case filterE p xs of
             Inl e \<Rightarrow> Inl e
           | Inr ys \<Rightarrow> Inr (if keep then x # ys else ys)))"

text \<open>\<^verbatim>\<open>Object.values(biasesData).filter((item: any) => item.id)\<close>\<close>

definition getBiases :: "(string \<times> json) list \<Rightarrow> error + json list" where
  "getBiases biasesData =
     filterE (\<lambda>item. case getId item of Inl e \<Rightarrow> Inl e | Inr v \<Rightarrow> Inr (truthy v))
       (map snd biasesData)"

text \<open>
  The source comment on \<^verbatim>\<open>getBiases\<close> names the sentinel: the dictionary has a
  \<^verbatim>\<open>_metadata\<close> key, and the filter is meant to drop it "by checking for the 'id'
  property which biases have but metadata doesn't".
\<close>

definition isSentinel :: "string \<times> json \<Rightarrow> bool" where
  "isSentinel entry = (fst entry = ''_metadata'')"

definition hasTruthyId :: "json \<Rightarrow> bool" where
  "hasTruthyId item = (case getId item of Inl e \<Rightarrow> False | Inr v \<Rightarrow> truthy v)"

text \<open>Decimal digits of an array index, as property keys spell it.\<close>

fun showNat :: "nat \<Rightarrow> string" where
  "showNat n =
     (if n < 10 then [char_of (48 + n)] else showNat (n div 10) @ [char_of (48 + n mod 10)])"

declare showNat.simps [simp del]

text \<open>
  The own enumerable properties that an object spread \<^verbatim>\<open>...(trait as any)\<close> copies: the
  properties of an object, the indexed elements of an array, the indexed characters of a
  string, and nothing for \<^verbatim>\<open>null\<close>, a number or a boolean.
\<close>

fun ownEntries :: "json \<Rightarrow> (string \<times> json) list" where
  "ownEntries (JObject props) = props"
| "ownEntries (JArray xs) = zip (map showNat [0..<length xs]) xs"
| "ownEntries (JString s) = zip (map showNat [0..<length s]) (map (\<lambda>c. JString [c]) s)"
| "ownEntries _ = []"

text \<open>
  \<^verbatim>\<open>Object.entries(traitsData).map(([id, trait]) => ({ id, ...(trait as any) }))\<close>.
  The literal first sets \<open>id\<close> to the key and then copies the properties of the trait
  one by one, each assignment replacing what the key held before. The built record is a
  map from property names to values.
\<close>

definition injectId :: "string \<times> json \<Rightarrow> (string \<rightharpoonup> json)" where
  "injectId entry =
     foldl (\<lambda>obj (k, v). obj(k \<mapsto> v)) [''id'' \<mapsto> JString (fst entry)] (ownEntries (snd entry))"

definition getTraits :: "(string \<times> json) list \<Rightarrow> (string \<rightharpoonup> json) list" where
  "getTraits traitsData = map injectId traitsData"

section \<open>A small dataset\<close>

text \<open>The code units of a text written in Basic Latin.\<close>

definition codeUnits :: "string \<Rightarrow> ustring" where
  "codeUnits s = map of_char s"

definition mkLoop ::
  "rat \<Rightarrow> ustring \<Rightarrow> ustring \<Rightarrow> ustring \<Rightarrow> LoopOrigin \<Rightarrow> rat \<Rightarrow> ustring list \<Rightarrow> BehavioralLoop" where
  "mkLoop i nm gv res orig diff tgs =
     \<lparr> loop_id = i, loop_name = nm,
       logic = \<lparr> given = gv, when_l = codeUnits ''a cue arrives'',
                 then_l = codeUnits ''the habit runs'', result = res \<rparr>,
       taxonomy = \<lparr> origin = orig, modality = META, mutability = Mutability FLUID,
                    valences = [TRUST] \<rparr>,
       operator = \<lparr> operator_name = ''Reinforcement'', mechanism = ''variable reward'' \<rparr>,
       veracity = \<lparr> objectiveGrounding = 1 / 2, socialConsensus = 1 / 2,
                    recursiveAmplification = 1 / 2, frictionIndex = 1 / 2 \<rparr>,
       intervention = \<lparr> difficulty = diff, interdict = None, minimize = None,
                        recognize = Some ''notice the cue'', leverage = None \<rparr>,
       meta = \<lparr> tags = tgs, relatedArchetypes = None, academicFields = None \<rparr> \<rparr>"

definition loop1 :: BehavioralLoop where
  "loop1 = mkLoop 1 (codeUnits ''Doomscroll'') (codeUnits ''user feels uneasy'')
             (codeUnits ''unease deepens'') DIGITAL 7
             [codeUnits ''attention'', codeUnits ''Trust'']"

definition loop2 :: BehavioralLoop where
  "loop2 = mkLoop 2 (codeUnits ''Notification Check'') (codeUnits ''phone buzzes'')
             (codeUnits ''focus is lost'') DIGITAL 4 [codeUnits ''habit'']"

definition loop3 :: BehavioralLoop where
  "loop3 = mkLoop 3 (codeUnits ''Smile Signal'') (codeUnits ''strangers meet'')
             (codeUnits ''TRUST is extended'') GENETIC 9 [codeUnits ''signal'']"

definition mkCategory :: "string \<Rightarrow> BehavioralLoop list \<Rightarrow> BehavioralCategory" where
  "mkCategory cid ls =
     \<lparr> category_id = cid, categoryNumber = 1, category_name = cid,
       category_description = ''sample'', loops = ls \<rparr>"

definition mkData :: "BehavioralCategory list \<Rightarrow> BehavioralLoopsData" where
  "mkData cats =
     \<lparr> metadata = \<lparr> title = ''Loops'', version = ''1.0.0'', description = ''sample'',
                    totalCategories = 279, totalLoops = 1140, generatedAt = ''2026'',
                    interventionsAdded = 0, updatedAt = ''2026'' \<rparr>,
       categories = cats \<rparr>"

definition sampleData :: BehavioralLoopsData where
  "sampleData =
     mkData [mkCategory ''digital-cognitive'' [loop1, loop2], mkCategory ''dental-oral'' [loop3]]"

text \<open>Two categories under one identifier, and a dataset with no category at all.\<close>

definition clashData :: BehavioralLoopsData where
  "clashData = mkData [mkCategory ''ocular'' [loop1], mkCategory ''ocular'' [loop3]]"

definition emptyData :: BehavioralLoopsData where
  "emptyData = mkData []"






definition sampleBiases :: "(string \<times> json) list" where
  "sampleBiases =
     [(''_metadata'', JObject [(''version'', JString ''1.0.0'')]),
      (''anchoring'', JObject [(''id'', JString ''anchoring''), (''name'', JString ''Anchoring'')]),
      (''framing'', JObject [(''id'', JString ''framing''), (''name'', JString ''Framing'')])]"

text \<open>A bias record whose \<open>id\<close> is the empty string.\<close>

definition blankIdBiases :: "(string \<times> json) list" where
  "blankIdBiases =
     [(''_metadata'', JObject [(''version'', JString ''1.0.0'')]),
      (''anchoring'', JObject [(''id'', JString ''anchoring''), (''name'', JString ''Anchoring'')]),
      (''framing'', JObject [(''id'', JString []), (''name'', JString ''Framing'')])]"

definition sampleTraits :: "(string \<times> json) list" where
  "sampleTraits =
     [(''openness'', JObject [(''name'', JString ''Openness''), (''dimension'', JString ''O'')]),
      (''grit'', JObject [(''name'', JString ''Grit'')])]"

text \<open>A trait that carries an \<open>id\<close> of its own, different from its key.\<close>

definition ownIdTraits :: "(string \<times> json) list" where
  "ownIdTraits =
     [(''openness'', JObject [(''id'', JString ''big5-o''), (''name'', JString ''Openness'')])]"

section \<open>Predicates used by the properties\<close>

text \<open>The declared range of an intervention difficulty is 1 to 10.\<close>

definition inDeclaredRange :: "number \<Rightarrow> bool" where
  "inDeclaredRange v = (case v of Num x \<Rightarrow> 1 \<le> x \<and> x \<le> 10 | Infinity s \<Rightarrow> False | NaN \<Rightarrow> False)"

definition difficultiesInRange :: "BehavioralLoopsData \<Rightarrow> bool" where
  "difficultiesInRange d =
     list_all (\<lambda>loop. 1 \<le> difficulty (intervention loop) \<and> difficulty (intervention loop) \<le> 10)
       (getAllLoops d)"

text \<open>
  The shape the comment on \<^verbatim>\<open>getBiases\<close> relies on: a bias record carries an \<open>id\<close>
  that counts as true, the \<^verbatim>\<open>_metadata\<close> entry is an object, string, number,
  boolean or array without one.
\<close>

definition biasesAsCommented :: "(string \<times> json) list \<Rightarrow> bool" where
  "biasesAsCommented biasesData =
     list_all (\<lambda>entry. if isSentinel entry
                        then snd entry \<noteq> JNull \<and> \<not> hasTruthyId (snd entry)
                        else hasTruthyId (snd entry)) biasesData"

lemmas sample_defs =
  sampleData_def mkData_def mkCategory_def loop1_def loop2_def loop3_def mkLoop_def
  getAllLoops_def getBehavioralLoops_def

section \<open>Lookup by identifier\<close>

lemma find_unique_key:
  "distinct (map f xs) \<Longrightarrow> x \<in> set xs \<Longrightarrow> find (\<lambda>y. f y = f x) xs = Some x"
  by (induction xs) (auto simp: image_iff)

text \<open>
  C1. When no two loops of the flattened list share an identifier, looking up the
  identifier of any loop of that list returns that very loop.
\<close>

theorem getLoopById_roundtrip:
  "distinct (map loop_id (getAllLoops d)) \<Longrightarrow> l \<in> set (getAllLoops d) \<Longrightarrow>
   getLoopById d (Num (loop_id l)) = Some l"
  by (simp add: getLoopById_def find_unique_key)

theorem getLoopById_roundtrip_witness:
  "distinct (map loop_id (getAllLoops sampleData)) \<and> loop2 \<in> set (getAllLoops sampleData) \<and>
   getLoopById sampleData (Num 2) = Some loop2"
  using getLoopById_roundtrip [of sampleData loop2]
  by (simp add: sample_defs)

text \<open>
  C8. A category identifier that no category carries yields the empty list, and a number
  that is the identifier of no loop yields no loop. Both accessors are total functions
  without an error result, so neither can raise.
\<close>

theorem lookup_absent:
  "((\<forall>c \<in> set (categories d). category_id c \<noteq> categoryId) \<longrightarrow> getLoopsByCategory d categoryId = []) \<and>
   ((\<forall>l \<in> set (getAllLoops d). \<not> strictEq (Num (loop_id l)) i) \<longrightarrow> getLoopById d i = None)"
proof (intro conjI impI)
  assume "\<forall>c \<in> set (categories d). category_id c \<noteq> categoryId"
  then have "find (\<lambda>c. category_id c = categoryId) (categories d) = None"
    by (simp add: find_None_iff)
  then show "getLoopsByCategory d categoryId = []"
    by (simp add: getLoopsByCategory_def getBehavioralLoops_def)
next
  assume "\<forall>l \<in> set (getAllLoops d). \<not> strictEq (Num (loop_id l)) i"
  then show "getLoopById d i = None"
    by (simp add: getLoopById_def find_None_iff)
qed

theorem lookup_absent_witness:
  "list_all (\<lambda>c. category_id c \<noteq> ''no-such-category'') (categories sampleData) \<and>
   getLoopsByCategory sampleData ''no-such-category'' = [] \<and>
   list_all (\<lambda>l. \<not> strictEq (Num (loop_id l)) (Num 99)) (getAllLoops sampleData) \<and>
   getLoopById sampleData (Num 99) = None \<and>
   list_all (\<lambda>l. \<not> strictEq (Num (loop_id l)) NaN) (getAllLoops sampleData) \<and>
   getLoopById sampleData NaN = None"
  using lookup_absent [of sampleData "''no-such-category''" "Num 99"]
    lookup_absent [of sampleData "''no-such-category''" NaN]
  by (simp add: sample_defs)

section \<open>Flattening and the per-category accessor\<close>

lemma getLoopsByCategory_own:
  assumes "distinct (map category_id (categories d))" and "c \<in> set (categories d)"
  shows "getLoopsByCategory d (category_id c) = loops c"
  using find_unique_key [OF assms]
  by (simp add: getLoopsByCategory_def getBehavioralLoops_def)

text \<open>
  C4, as stated, fails where two categories share an identifier: the accessor stops at
  the first of them, so the loops of the second are in the flattened list and in no
  per-category result.
\<close>

theorem partition_counterexample:
  "loop3 \<in> set (getAllLoops clashData) \<and>
   loop3 \<notin> set (concat (map (getLoopsByCategory clashData) (map category_id (categories clashData))))"
  by (simp add: clashData_def mkData_def mkCategory_def getAllLoops_def getBehavioralLoops_def
      getLoopsByCategory_def loop1_def loop3_def mkLoop_def)

text \<open>
  C4, amended. The flattened list is the concatenation of the categories' loop lists in
  category order; and when the category identifiers are pairwise distinct, the
  per-category results, taken over the category identifiers in order, concatenate to
  exactly the flattened list.
\<close>

theorem getAllLoops_partition:
  "getAllLoops d = concat (map loops (categories d)) \<and>
   (distinct (map category_id (categories d)) \<longrightarrow>
      concat (map (getLoopsByCategory d) (map category_id (categories d))) = getAllLoops d)"
proof (intro conjI impI)
  show flat: "getAllLoops d = concat (map loops (categories d))"
    by (simp add: getAllLoops_def getBehavioralLoops_def)
  assume uniq: "distinct (map category_id (categories d))"
  have eq: "map (getLoopsByCategory d) (map category_id (categories d)) = map loops (categories d)"
    unfolding map_map by (rule map_cong [OF refl]) (simp add: getLoopsByCategory_own [OF uniq])
  show "concat (map (getLoopsByCategory d) (map category_id (categories d))) = getAllLoops d"
    by (simp only: eq flat)
qed

theorem getAllLoops_partition_witness:
  "distinct (map category_id (categories sampleData)) \<and>
   concat (map (getLoopsByCategory sampleData) [''digital-cognitive'', ''dental-oral'']) =
     getAllLoops sampleData \<and>
   getAllLoops sampleData = [loop1, loop2, loop3]"
  using getAllLoops_partition [of sampleData]
  by (simp add: sampleData_def mkData_def mkCategory_def getAllLoops_def getBehavioralLoops_def)

section \<open>Statistics\<close>

text \<open>
  C2. The two totals of the statistics are the totals the metadata declares, whatever the
  categories hold.
\<close>

theorem getStatistics_totals:
  "totalLoops_stat (getStatistics d) = totalLoops (metadata d) \<and>
   totalCategories_stat (getStatistics d) = totalCategories (metadata d)"
  by (simp add: getStatistics_def getBehavioralLoops_def Let_def)

text \<open>The sample declares 1140 loops in 279 categories and holds 3 loops in 2.\<close>

theorem getStatistics_totals_witness:
  "totalLoops_stat (getStatistics sampleData) = 1140 \<and> length (getAllLoops sampleData) = 3 \<and>
   totalCategories_stat (getStatistics sampleData) = 279 \<and> length (categories sampleData) = 2"
  using getStatistics_totals [of sampleData]
  by (simp add: sample_defs)

lemma sum_update_count:
  "sum_list (map snd (AList.update k v acc)) + (case map_of acc k of None \<Rightarrow> 0 | Some n \<Rightarrow> n)
     = sum_list (map snd acc) + (v::nat)"
  by (induction acc) auto

lemma sum_countOrigin:
  "sum_list (map snd (countOrigin acc loop)) = sum_list (map snd acc) + 1"
  using sum_update_count [of "origin (taxonomy loop)"
      "(case map_of acc (origin (taxonomy loop)) of None \<Rightarrow> 0 | Some n \<Rightarrow> n) + 1" acc]
  by (simp add: countOrigin_def Let_def split: option.splits)

lemma sum_foldl_countOrigin:
  "sum_list (map snd (foldl countOrigin acc ls)) = sum_list (map snd acc) + length ls"
  by (induction ls arbitrary: acc) (simp_all add: sum_countOrigin)

text \<open>
  C9. The counts stored in \<open>loopsByOrigin\<close> add up to the number of loops in the
  flattened list.
\<close>

theorem loopsByOrigin_sum:
  "sum_list (map snd (loopsByOrigin (getStatistics d))) = length (getAllLoops d)"
  by (simp add: getStatistics_def Let_def sum_foldl_countOrigin)

theorem loopsByOrigin_sum_witness:
  "loopsByOrigin (getStatistics sampleData) = [(DIGITAL, 2), (GENETIC, 1)] \<and>
   sum_list (map snd (loopsByOrigin (getStatistics sampleData))) = 3 \<and>
   length (getAllLoops sampleData) = 3"
  using loopsByOrigin_sum [of sampleData]
  by (simp add: sample_defs getStatistics_def countOrigin_def)

lemma foldl_difficulty:
  "foldl (\<lambda>sum loop. sum + difficulty (intervention loop)) a ls
     = a + sum_list (map (\<lambda>loop. difficulty (intervention loop)) ls)"
  by (induction ls arbitrary: a) simp_all

lemma average_value:
  "averageInterventionDifficulty (getStatistics d) =
     roundToTenth (divideByLength (sum_list (map (\<lambda>loop. difficulty (intervention loop)) (getAllLoops d)))
        (length (getAllLoops d)))"
  by (simp add: getStatistics_def Let_def foldl_difficulty)



lemma difficulty_sum_bounds:
  "list_all (\<lambda>loop. 1 \<le> difficulty (intervention loop) \<and> difficulty (intervention loop) \<le> 10) ls \<Longrightarrow>
   of_nat (length ls) \<le> sum_list (map (\<lambda>loop. difficulty (intervention loop)) ls) \<and>
   sum_list (map (\<lambda>loop. difficulty (intervention loop)) ls) \<le> 10 * of_nat (length ls)"
  by (induction ls) auto

lemma round_tenth_bounds:
  fixes x :: rat
  assumes "1 \<le> x" and "x \<le> 10"
  shows "1 \<le> of_int \<lfloor>x * 10 + 1 / 2\<rfloor> / (10::rat) \<and> of_int \<lfloor>x * 10 + 1 / 2\<rfloor> / (10::rat) \<le> 10"
proof -
  have "10 \<le> \<lfloor>x * 10 + 1 / 2\<rfloor>" using assms by (simp add: le_floor_iff)
  moreover have "\<lfloor>x * 10 + 1 / 2\<rfloor> \<le> 100" using assms by (simp add: floor_le_iff)
  ultimately show ?thesis by simp
qed

text \<open>
  C5, as stated, fails on a dataset without loops: every loop (there is none) has its
  difficulty in range, and the field is \<open>NaN\<close>, which is in no range.
\<close>

theorem average_range_counterexample:
  "difficultiesInRange emptyData \<and>
   averageInterventionDifficulty (getStatistics emptyData) = NaN \<and>
   \<not> inDeclaredRange (averageInterventionDifficulty (getStatistics emptyData))"
  by (simp add: difficultiesInRange_def inDeclaredRange_def emptyData_def mkData_def
      getAllLoops_def getBehavioralLoops_def getStatistics_def divideByLength_def)

text \<open>
  C5, amended. When the flattened list holds at least one loop and every loop's
  difficulty lies within 1 to 10, the rounded mean lies within 1 to 10.
\<close>

theorem average_in_range:
  assumes "getAllLoops d \<noteq> []" and "difficultiesInRange d"
  shows "inDeclaredRange (averageInterventionDifficulty (getStatistics d))"
proof -
  let ?ls = "getAllLoops d"
  let ?s = "sum_list (map (\<lambda>loop. difficulty (intervention loop)) ?ls)"
  let ?n = "of_nat (length ?ls) :: rat"
  have n: "0 < ?n" using assms(1) by simp
  have "?n \<le> ?s \<and> ?s \<le> 10 * ?n"
    using assms(2) difficulty_sum_bounds unfolding difficultiesInRange_def by blast
  then have "1 \<le> ?s / ?n" and "?s / ?n \<le> 10"
    using n by (simp_all add: le_divide_eq divide_le_eq)
  then show ?thesis
    using round_tenth_bounds [of "?s / ?n"] assms(1)
    by (simp add: average_value divideByLength_def inDeclaredRange_def)
qed

theorem average_in_range_witness:
  "getAllLoops sampleData \<noteq> [] \<and> difficultiesInRange sampleData \<and>
   inDeclaredRange (averageInterventionDifficulty (getStatistics sampleData))"
  using average_in_range [of sampleData]
  by (simp add: difficultiesInRange_def sample_defs)

section \<open>Searching without regard to case\<close>




























section \<open>Traits\<close>

lemma foldl_assign_other:
  "k \<notin> fst ` set ps \<Longrightarrow> foldl (\<lambda>obj (k', v). obj(k' \<mapsto> v)) m ps k = m k"
  by (induction ps arbitrary: m) auto

text \<open>
  C3, as stated, fails for a trait that has an \<open>id\<close> property itself: the spread comes
  after the injected key and overwrites it.
\<close>

theorem trait_id_counterexample:
  "fst (ownIdTraits ! 0) = ''openness'' \<and>
   (getTraits ownIdTraits ! 0) ''id'' = Some (JString ''big5-o'') \<and>
   (getTraits ownIdTraits ! 0) ''id'' \<noteq> Some (JString (fst (ownIdTraits ! 0)))"
  by (simp add: ownIdTraits_def getTraits_def injectId_def)

text \<open>
  C3, amended. \<^verbatim>\<open>getTraits\<close> returns one record per dictionary entry, in order, and
  for every entry whose value has no \<open>id\<close> property of its own the record's \<open>id\<close> is
  the entry's key.
\<close>

theorem trait_id_is_key:
  assumes "i < length traitsData"
    and "''id'' \<notin> fst ` set (ownEntries (snd (traitsData ! i)))"
  shows "length (getTraits traitsData) = length traitsData \<and>
         (getTraits traitsData ! i) ''id'' = Some (JString (fst (traitsData ! i)))"
  using assms by (simp add: getTraits_def injectId_def foldl_assign_other)

theorem trait_id_is_key_witness:
  "(1::nat) < length sampleTraits \<and>
   ''id'' \<notin> fst ` set (ownEntries (snd (sampleTraits ! 1))) \<and>
   length (getTraits sampleTraits) = 2 \<and>
   (getTraits sampleTraits ! 1) ''id'' = Some (JString ''grit'') \<and>
   (getTraits sampleTraits ! 1) ''name'' = Some (JString ''Grit'')"
  using trait_id_is_key [of 1 sampleTraits]
  by (simp add: sampleTraits_def getTraits_def injectId_def)

section \<open>Biases\<close>

lemma filterE_no_throw:
  "list_all (\<lambda>item. item \<noteq> JNull) items \<Longrightarrow>
   filterE (\<lambda>item. case getId item of Inl e \<Rightarrow> Inl e | Inr v \<Rightarrow> Inr (truthy v)) items
     = Inr (filter hasTruthyId items)"
proof (induction items)
  case Nil
  then show ?case by simp
next
  case (Cons item items)
  then show ?case by (cases item) (simp_all add: hasTruthyId_def)
qed

lemma biasesAsCommented_filter:
  "biasesAsCommented bd \<Longrightarrow>
   list_all (\<lambda>item. item \<noteq> JNull) (map snd bd) \<and>
   filter hasTruthyId (map snd bd) = map snd (filter (\<lambda>entry. \<not> isSentinel entry) bd)"
  unfolding biasesAsCommented_def
  by (induction bd) (auto simp: hasTruthyId_def split: if_splits)

text \<open>
  C6, as stated, fails for a bias record whose \<open>id\<close> is the empty string: the filter
  tests the truth value of \<open>id\<close>, so the record is dropped although it is no sentinel,
  and one record is returned where three entries minus one sentinel leave two.
\<close>

theorem biases_counterexample:
  "\<not> isSentinel (blankIdBiases ! 2) \<and>
   getBiases blankIdBiases = Inr [snd (blankIdBiases ! 1)] \<and>
   length blankIdBiases - length (filter isSentinel blankIdBiases) = 2"
  by (simp add: blankIdBiases_def getBiases_def isSentinel_def)

text \<open>
  C6, amended. When every entry other than the \<^verbatim>\<open>_metadata\<close> sentinel carries an
  \<open>id\<close> that counts as true, and the sentinel is a value other than \<^verbatim>\<open>null\<close> without
  one, \<^verbatim>\<open>getBiases\<close> returns the values of exactly the non-sentinel entries, in order, and
  their number is the number of entries minus the number of sentinel entries.
\<close>

theorem getBiases_drops_sentinel:
  assumes "biasesAsCommented biasesData"
  shows "\<exists>r. getBiases biasesData = Inr r \<and>
           r = map snd (filter (\<lambda>entry. \<not> isSentinel entry) biasesData) \<and>
           length r = length biasesData - length (filter isSentinel biasesData)"
proof -
  have len: "length (filter (\<lambda>entry. \<not> isSentinel entry) biasesData)
       = length biasesData - length (filter isSentinel biasesData)"
    using sum_length_filter_compl [of isSentinel biasesData] by simp
  show ?thesis
    using biasesAsCommented_filter [OF assms] len
    by (simp add: getBiases_def filterE_no_throw)
qed

theorem getBiases_drops_sentinel_witness:
  "biasesAsCommented sampleBiases \<and>
   getBiases sampleBiases = Inr [snd (sampleBiases ! 1), snd (sampleBiases ! 2)] \<and>
   length sampleBiases - length (filter isSentinel sampleBiases) = 2"
  using getBiases_drops_sentinel [of sampleBiases]
  by (simp add: sampleBiases_def biasesAsCommented_def isSentinel_def hasTruthyId_def)

end
